theory Spec2Isabelle
  imports Main "HOL-Library.Signed_Division"
begin

section \<open>Data model\<close>

text \<open>
  The terminal wizard of macDevTUI: the step registry of \<^verbatim>\<open>models.go\<close>, the installer
  configuration of \<^verbatim>\<open>config.go\<close>, the progress message of \<^verbatim>\<open>installer.go\<close> and the
  Bubble Tea model of \<^verbatim>\<open>main.go\<close>.

  Go's \<^verbatim>\<open>int\<close> is modelled by \<^typ>\<open>int\<close>. The only arithmetic the modelled code
  performs on it is \<^verbatim>\<open>selectedStep--\<close> under the guard \<^verbatim>\<open>selectedStep > 0\<close>,
  \<^verbatim>\<open>selectedStep++\<close> under \<^verbatim>\<open>selectedStep < len(steps)-1\<close>, and the pane arithmetic of
  \<^verbatim>\<open>View\<close>, reached only when \<^verbatim>\<open>width >= 50\<close>; none of them can leave the 64-bit range.
  A Go slice shares its array between the copies of a model, and the runtime keeps
  only the model a transition returns: a transition is a function from the state to
  the new state. A Go \<^verbatim>\<open>string\<close> is a byte sequence, here a \<^typ>\<open>string\<close>; characters outside ASCII
  are written as their UTF-8 bytes. A value of Go's \<^verbatim>\<open>error\<close> interface is the option of
  the text its \<^verbatim>\<open>Error()\<close> method returns, \<^term>\<open>None\<close> for \<^verbatim>\<open>nil\<close>.
\<close>

datatype InstallStatus = StatusReady | StatusInProgress | StatusComplete | StatusError

record HombrewConfig =
  Install :: bool
  BrewfilePaths :: "string list"

record ShellConfig =
  Install :: bool
  RequiredTools :: "string list"
  ShellFiles :: "string list"
  ThemeFile :: string
  InitCommands :: "string list list"

record Language =
  Name :: string
  Enabled :: bool
  Commands :: "string list list"

record DevToolsConfig =
  Install :: bool
  Languages :: "Language list"
  GlobalTools :: "string list list"
  VerifyTools :: "string list"

text \<open>
  The two \<^verbatim>\<open>map[string]string\<close> fields are association lists: the entries of the map in
  the order in which the \<^verbatim>\<open>range\<close> statement of \<^verbatim>\<open>getConfigurableSteps\<close> visits them
  (Go leaves that order unspecified).
\<close>

record DotfilesConfig =
  Install :: bool
  Mappings :: "(string \<times> string) list"

record TerminalConfig =
  Install :: bool
  ConfigFiles :: "(string \<times> string) list"

record InstallConfig =
  Homebrew :: HombrewConfig
  Shell :: ShellConfig
  DevTools :: DevToolsConfig
  Dotfiles :: DotfilesConfig
  Terminal :: TerminalConfig

record InstallMsg =
  StepID :: string
  Status :: InstallStatus
  Progress :: int
  Message :: string
  Error :: "string option"

record Notification =
  Title :: string
  Message :: string
  Type :: string

record SetupStep =
  ID :: string
  Title :: string
  Icon :: string
  Description :: string
  Items :: "string list"
  EstTime :: int
  Status :: InstallStatus
  Error :: string
  Progress :: int
  Enabled :: bool

datatype KeyboardLayout = QWERTY | ColemakDH

record Model =
  steps :: "SetupStep list"
  selectedStep :: int
  keyboardLayout :: KeyboardLayout
  width :: int
  height :: int
  installing :: bool
  showHelp :: bool
  currentProgress :: int
  currentMessage :: string
  config :: "InstallConfig option"
  notification :: "Notification option"

text \<open>
  The commands a transition hands back to the runtime: \<^verbatim>\<open>tea.Quit\<close>, or the closure
  returned by \<^verbatim>\<open>m.StartInstallation()\<close>, which captures the model it was called on.
  \<^term>\<open>None\<close> is the \<^verbatim>\<open>nil\<close> command.
\<close>

datatype Cmd = Quit | StartInstallation Model

text \<open>
  The events of the loop. A key event is the text its \<^verbatim>\<open>String()\<close> method gives
  (\<^verbatim>\<open>"up"\<close>, \<^verbatim>\<open>"enter"\<close>, \<^verbatim>\<open>" "\<close> for the space bar, \<^verbatim>\<open>"k"\<close>, ...);
  \<open>OtherMsg\<close> is any message of another dynamic type.
\<close>

datatype Msg = WindowSizeMsg int int | KeyMsg string | InstallMsgOf InstallMsg | OtherMsg

section \<open>Library functions of Go used by the code\<close>

fun HasPrefix :: "string \<Rightarrow> string \<Rightarrow> bool" where
  "HasPrefix s [] = True"
| "HasPrefix [] (c # p) = False"
| "HasPrefix (d # s) (c # p) = (d = c \<and> HasPrefix s p)"

text \<open>\<^verbatim>\<open>strings.Contains(s, substr)\<close>: \<open>substr\<close> occurs in \<open>s\<close> as a contiguous block.\<close>

fun Contains :: "string \<Rightarrow> string \<Rightarrow> bool" where
  "Contains [] sub = HasPrefix [] sub"
| "Contains (c # s) sub = (HasPrefix (c # s) sub \<or> Contains s sub)"

text \<open>\<^verbatim>\<open>strings.Join(elems, sep)\<close>.\<close>

fun Join :: "string list \<Rightarrow> string \<Rightarrow> string" where
  "Join [] sep = []"
| "Join [x] sep = x"
| "Join (x # y # ys) sep = x @ sep @ Join (y # ys) sep"

text \<open>The verb \<^verbatim>\<open>%d\<close> of \<^verbatim>\<open>fmt.Sprintf\<close> on a length, which is never negative.\<close>

fun itoa :: "nat \<Rightarrow> string" where
  "itoa n = (if n < 10 then [char_of (48 + n)]
             else itoa (n div 10) @ [char_of (48 + n mod 10)])"

declare itoa.simps [simp del]

definition Minute :: int where
  "Minute = 60 * 1000000000"

section \<open>The step registry (models.go)\<close>

text \<open>The arrows of the source, as UTF-8 bytes.\<close>

definition iconPlay :: string where
  "iconPlay = [CHR 0xE2, CHR 0x96, CHR 0xB6]"

definition arrowRight :: string where
  "arrowRight = [CHR 0xE2, CHR 0x86, CHR 0x92]"

definition mappingItem :: "string \<times> string \<Rightarrow> string" where
  "mappingItem e = fst e @ '' '' @ arrowRight @ '' '' @ snd e"

definition languageItem :: "Language \<Rightarrow> string" where
  "languageItem lang =
     Name lang @ '': '' @ (if Language.Enabled lang then ''enabled'' else ''disabled'')
       @ '' ('' @ itoa (length (Commands lang)) @ '' commands)''"

definition homebrewStep :: "InstallConfig \<Rightarrow> SetupStep" where
  "homebrewStep c =
     \<lparr>ID = ''homebrew'', Title = ''Homebrew & Packages'', Icon = iconPlay,
      Description = ''Install Homebrew and packages from Brewfile'',
      Items = [''Homebrew package manager'',
               ''Brewfile locations: '' @ itoa (length (BrewfilePaths (Homebrew c)))
                 @ '' paths configured'',
               ''Packages from: '' @ Join (BrewfilePaths (Homebrew c)) '', ''],
      EstTime = 15 * Minute, Status = StatusReady, Error = [], Progress = 0,
      Enabled = True\<rparr>"

definition terminalStep :: "InstallConfig \<Rightarrow> SetupStep" where
  "terminalStep c =
     \<lparr>ID = ''terminal'', Title = ''Terminal Configuration'', Icon = iconPlay,
      Description = ''Configure terminal applications with Catppuccin theme'',
      Items = map mappingItem (ConfigFiles (Terminal c)),
      EstTime = 2 * Minute, Status = StatusReady, Error = [], Progress = 0,
      Enabled = True\<rparr>"

definition shellStep :: "InstallConfig \<Rightarrow> SetupStep" where
  "shellStep c =
     \<lparr>ID = ''shell'', Title = ''Shell & Prompt Setup'', Icon = iconPlay,
      Description = ''Configure Zsh with Oh-My-Posh and productivity tools'',
      Items = [''Required tools: '' @ Join (RequiredTools (Shell c)) '', '',
               ''Shell files: '' @ Join (ShellFiles (Shell c)) '', '',
               ''Theme file: '' @ ThemeFile (Shell c),
               ''Init commands: '' @ itoa (length (InitCommands (Shell c))) @ '' configured''],
      EstTime = 3 * Minute, Status = StatusReady, Error = [], Progress = 0,
      Enabled = True\<rparr>"

definition devtoolsStep :: "InstallConfig \<Rightarrow> SetupStep" where
  "devtoolsStep c =
     \<lparr>ID = ''devtools'', Title = ''Development Tools'', Icon = iconPlay,
      Description = ''Configure development environments and toolchains'',
      Items = map languageItem (Languages (DevTools c))
                @ [''Verify tools: '' @ Join (VerifyTools (DevTools c)) '', ''],
      EstTime = 5 * Minute, Status = StatusReady, Error = [], Progress = 0,
      Enabled = True\<rparr>"

definition dotfilesStep :: "InstallConfig \<Rightarrow> SetupStep" where
  "dotfilesStep c =
     \<lparr>ID = ''dotfiles'', Title = ''Restore Dotfiles'', Icon = iconPlay,
      Description = ''Copy configuration files to their destinations'',
      Items = map mappingItem (Mappings (Dotfiles c)),
      EstTime = 1 * Minute, Status = StatusReady, Error = [], Progress = 0,
      Enabled = True\<rparr>"

definition verifyStep :: SetupStep where
  "verifyStep =
     \<lparr>ID = ''verify'', Title = ''Verify Installation'', Icon = iconPlay,
      Description = ''Test that all tools are properly installed and accessible'',
      Items = [''Check tool availability in PATH'', ''Validate configurations'',
               ''Generate installation report''],
      EstTime = 2 * Minute, Status = StatusReady, Error = [], Progress = 0,
      Enabled = True\<rparr>"

text \<open>
  \<^verbatim>\<open>getConfigurableSteps\<close>: no configuration gives no steps; otherwise one step per
  section whose \<^verbatim>\<open>Install\<close> flag is set, in the fixed order of the source, and the
  verify step always last.
\<close>

definition getConfigurableSteps :: "InstallConfig option \<Rightarrow> SetupStep list" where
  "getConfigurableSteps cfg =
     (case cfg of
        None \<Rightarrow> []
      | Some c \<Rightarrow>
          (if HombrewConfig.Install (Homebrew c) then [homebrewStep c] else [])
          @ (if TerminalConfig.Install (Terminal c) then [terminalStep c] else [])
          @ (if ShellConfig.Install (Shell c) then [shellStep c] else [])
          @ (if DevToolsConfig.Install (DevTools c) then [devtoolsStep c] else [])
          @ (if DotfilesConfig.Install (Dotfiles c) then [dotfilesStep c] else [])
          @ [verifyStep])"

text \<open>\<^verbatim>\<open>getTotalConfiguredSteps\<close> counts the sections to install, and the verify step.\<close>

definition getTotalConfiguredSteps :: "InstallConfig \<Rightarrow> int" where
  "getTotalConfiguredSteps c =
     (if HombrewConfig.Install (Homebrew c) then 1 else 0)
     + (if TerminalConfig.Install (Terminal c) then 1 else 0)
     + (if ShellConfig.Install (Shell c) then 1 else 0)
     + (if DevToolsConfig.Install (DevTools c) then 1 else 0)
     + (if DotfilesConfig.Install (Dotfiles c) then 1 else 0)
     + 1"

section \<open>The model and its transitions (main.go)\<close>


text \<open>
  \<^verbatim>\<open>toggleStep\<close>: flips \<^verbatim>\<open>Enabled\<close> of the selected step when the index is in range,
  and does nothing otherwise.
\<close>

definition toggleStep :: "Model \<Rightarrow> Model \<times> Cmd option" where
  "toggleStep m =
     (if selectedStep m \<ge> 0 \<and> selectedStep m < int (length (steps m))
      then (m\<lparr>steps := (steps m)[nat (selectedStep m) :=
                 (steps m ! nat (selectedStep m))
                   \<lparr>Enabled := \<not> Enabled (steps m ! nat (selectedStep m))\<rparr>]\<rparr>, None)
      else (m, None))"

definition handleKeypress :: "Model \<Rightarrow> string \<Rightarrow> Model \<times> Cmd option" where
  "handleKeypress m key =
     (if notification m \<noteq> None \<and> (key = ''enter'' \<or> key = ''esc'')
      then (m\<lparr>notification := None\<rparr>, None)
      else if key = ''q'' \<or> key = ''esc'' \<or> key = ''ctrl+c'' then (m, Some Quit)
      else if key = ''?'' then (m\<lparr>showHelp := \<not> showHelp m\<rparr>, None)
      else if key = ''c'' then
        (if keyboardLayout m = QWERTY then (m\<lparr>keyboardLayout := ColemakDH\<rparr>, None)
         else (m\<lparr>keyboardLayout := QWERTY\<rparr>, None))
      else if key = ''s'' \<or> key = ''S'' then
        (if \<not> installing m \<and> notification m = None
         then (m\<lparr>installing := True\<rparr>, Some (StartInstallation (m\<lparr>installing := True\<rparr>)))
         else (m, None))
      else if keyboardLayout m = QWERTY then
        (if key = ''up'' \<or> key = ''k'' then
           (if selectedStep m > 0 then (m\<lparr>selectedStep := selectedStep m - 1\<rparr>, None)
            else (m, None))
         else if key = ''down'' \<or> key = ''j'' then
           (if selectedStep m < int (length (steps m)) - 1
            then (m\<lparr>selectedStep := selectedStep m + 1\<rparr>, None)
            else (m, None))
         else if key = ''enter'' \<or> key = '' '' then toggleStep m
         else (m, None))
      else
        (if key = ''up'' \<or> key = ''u'' then
           (if selectedStep m > 0 then (m\<lparr>selectedStep := selectedStep m - 1\<rparr>, None)
            else (m, None))
         else if key = ''down'' \<or> key = ''e'' then
           (if selectedStep m < int (length (steps m)) - 1
            then (m\<lparr>selectedStep := selectedStep m + 1\<rparr>, None)
            else (m, None))
         else if key = ''enter'' \<or> key = '' '' then toggleStep m
         else (m, None)))"

text \<open>
  The first loop of the \<^verbatim>\<open>InstallMsg\<close> case: the first step whose \<^verbatim>\<open>ID\<close> is the
  message's \<^verbatim>\<open>StepID\<close> takes the message's status, and the error's text when there is
  an error; the \<^verbatim>\<open>break\<close> leaves every later step alone.
\<close>

fun updateMatchingStep :: "InstallMsg \<Rightarrow> SetupStep list \<Rightarrow> SetupStep list" where
  "updateMatchingStep msg [] = []"
| "updateMatchingStep msg (step # rest) =
     (if ID step = StepID msg
      then (case InstallMsg.Error msg of
              None \<Rightarrow> step\<lparr>Status := InstallMsg.Status msg\<rparr>
            | Some e \<Rightarrow> step\<lparr>Status := InstallMsg.Status msg, Error := e\<rparr>) # rest
      else step # updateMatchingStep msg rest)"

text \<open>The second loop: every enabled step becomes complete.\<close>

definition markEnabledComplete :: "SetupStep list \<Rightarrow> SetupStep list" where
  "markEnabledComplete ss =
     map (\<lambda>step. if Enabled step then step\<lparr>Status := StatusComplete\<rparr> else step) ss"

definition errorNotification :: "string \<Rightarrow> string \<Rightarrow> Notification" where
  "errorNotification sid e =
     \<lparr>Notification.Title = ''Installation Error'',
      Notification.Message =
        ''Step '' @ [CHR 0x27] @ sid @ [CHR 0x27] @ '' failed: '' @ e
          @ ''\<newline>Press Enter to dismiss'',
      Type = ''error''\<rparr>"

definition completeNotification :: Notification where
  "completeNotification =
     \<lparr>Notification.Title = ''Installation Complete!'',
      Notification.Message =
        ''Report saved to: ./macdevtui-report.md\<newline>Press Enter to dismiss'',
      Type = ''success''\<rparr>"

fun Update :: "Model \<Rightarrow> Msg \<Rightarrow> Model \<times> Cmd option" where
  "Update m (WindowSizeMsg w h) = (m\<lparr>width := w, height := h\<rparr>, None)"
| "Update m (KeyMsg key) = handleKeypress m key"
| "Update m (InstallMsgOf msg) =
     (let m1 = (if StepID msg \<noteq> [] then m\<lparr>steps := updateMatchingStep msg (steps m)\<rparr>
                else m);
          m2 = (case InstallMsg.Error msg of
                  None \<Rightarrow> m1
                | Some e \<Rightarrow> m1\<lparr>installing := False,
                               notification := Some (errorNotification (StepID msg) e)\<rparr>);
          m3 = (if InstallMsg.Progress msg > 0
                then m2\<lparr>currentProgress := InstallMsg.Progress msg\<rparr> else m2);
          m4 = (if InstallMsg.Message msg \<noteq> []
                then m3\<lparr>currentMessage := InstallMsg.Message msg\<rparr> else m3);
          m5 = (if Contains (InstallMsg.Message msg) ''complete!''
                then m4\<lparr>installing := False, currentProgress := 100,
                        steps := markEnabledComplete (steps m4),
                        notification := Some completeNotification\<rparr>
                else m4)
      in (m5, None))"
| "Update m OtherMsg = (m, None)"

section \<open>The pane layout of View\<close>

text \<open>
  \<^verbatim>\<open>View\<close> renders through the lipgloss library; what is modelled is the part that
  decides the frame: the help screen, the loading placeholder, the too-small message,
  or two panes with the widths the ladder computes. Go's \<^verbatim>\<open>/\<close> on \<^verbatim>\<open>int\<close> truncates
  towards zero, which is \<open>sdiv\<close>.
\<close>

definition tierNavWidth :: "int \<Rightarrow> int" where
  "tierNavWidth w =
     (if w < 80 then 25
      else if w < 120 then (if w sdiv 4 < 25 then 25 else w sdiv 4)
      else (if w sdiv 3 > 50 then 50 else w sdiv 3))"

definition paneWidths :: "int \<Rightarrow> int \<times> int" where
  "paneWidths w =
     (let navWidth = tierNavWidth w;
          detailWidth = w - navWidth - 6
      in if detailWidth < 20 then (w - 20 - 6, 20) else (navWidth, detailWidth))"

datatype Frame = HelpScreen | Loading | TooSmall | Panes int int

definition View :: "Model \<Rightarrow> Frame" where
  "View m =
     (if showHelp m then HelpScreen
      else if width m = 0 \<or> height m = 0 then Loading
      else if width m < 50 \<or> height m < 10 then TooSmall
      else Panes (fst (paneWidths (width m))) (snd (paneWidths (width m))))"

section \<open>The event loop\<close>

text \<open>
  The Bubble Tea runtime passes every event to \<^verbatim>\<open>Update\<close> and goes on with the model it
  returns: a sequence of events is folded through \<^term>\<open>Update\<close>.
\<close>

fun eventLoop :: "Model \<Rightarrow> Msg list \<Rightarrow> Model" where
  "eventLoop m [] = m"
| "eventLoop m (e # es) = eventLoop (fst (Update m e)) es"

text \<open>
  The navigation keys of the two \<^verbatim>\<open>switch\<close> statements of \<^verbatim>\<open>handleKeypress\<close>, by
  layout.
\<close>

definition isNavUp :: "KeyboardLayout \<Rightarrow> string \<Rightarrow> bool" where
  "isNavUp l key =
     (case l of QWERTY \<Rightarrow> key = ''up'' \<or> key = ''k''
      | ColemakDH \<Rightarrow> key = ''up'' \<or> key = ''u'')"

definition isNavDown :: "KeyboardLayout \<Rightarrow> string \<Rightarrow> bool" where
  "isNavDown l key =
     (case l of QWERTY \<Rightarrow> key = ''down'' \<or> key = ''j''
      | ColemakDH \<Rightarrow> key = ''down'' \<or> key = ''e'')"

definition isNavKey :: "string \<Rightarrow> bool" where
  "isNavKey key = (isNavUp QWERTY key \<or> isNavDown QWERTY key
                   \<or> isNavUp ColemakDH key \<or> isNavDown ColemakDH key)"

text \<open>The values \<^verbatim>\<open>currentProgress\<close> takes after each message of a sequence.\<close>

fun progressTrace :: "Model \<Rightarrow> InstallMsg list \<Rightarrow> int list" where
  "progressTrace m [] = []"
| "progressTrace m (msg # msgs) =
     currentProgress (fst (Update m (InstallMsgOf msg)))
       # progressTrace (fst (Update m (InstallMsgOf msg))) msgs"

text \<open>
  A sequence of messages reports rising progress from a model when each message either
  carries no progress value (one that is not positive) or a percentage that is at least
  the progress current when it arrives.
\<close>

fun risingProgress :: "Model \<Rightarrow> InstallMsg list \<Rightarrow> bool" where
  "risingProgress m [] = True"
| "risingProgress m (msg # msgs) =
     ((InstallMsg.Progress msg \<le> 0
         \<or> (currentProgress m \<le> InstallMsg.Progress msg \<and> InstallMsg.Progress msg \<le> 100))
      \<and> risingProgress (fst (Update m (InstallMsgOf msg))) msgs)"

section \<open>Auxiliary notions\<close>

text \<open>The registry after the first loop of the \<^verbatim>\<open>InstallMsg\<close> case.\<close>

definition stepsAfterMatch :: "Model \<Rightarrow> InstallMsg \<Rightarrow> SetupStep list" where
  "stepsAfterMatch m msg =
     (if StepID msg \<noteq> [] then updateMatchingStep msg (steps m) else steps m)"

text \<open>The two moves of the selection, as the navigation cases of both layouts write them.\<close>

definition moveUp :: "Model \<Rightarrow> Model" where
  "moveUp m = (if selectedStep m > 0 then m\<lparr>selectedStep := selectedStep m - 1\<rparr> else m)"

definition moveDown :: "Model \<Rightarrow> Model" where
  "moveDown m = (if selectedStep m < int (length (steps m)) - 1
                 then m\<lparr>selectedStep := selectedStep m + 1\<rparr> else m)"

section \<open>Sample states and messages\<close>

definition demoStep :: "string \<Rightarrow> bool \<Rightarrow> SetupStep" where
  "demoStep sid en = verifyStep\<lparr>ID := sid, Enabled := en\<rparr>"

definition demoModel :: Model where
  "demoModel =
     \<lparr>steps = [demoStep ''homebrew'' True, demoStep ''shell'' True, demoStep ''verify'' False],
      selectedStep = 1, keyboardLayout = ColemakDH, width = 100, height = 30,
      installing = False, showHelp = False, currentProgress = 0,
      currentMessage = ''Ready to install'', config = None, notification = None\<rparr>"

definition demoNotification :: Notification where
  "demoNotification = errorNotification ''shell'' ''exit status 1''"

text \<open>The sample state with a notification on show.\<close>

definition alertModel :: Model where
  "alertModel = demoModel\<lparr>notification := Some demoNotification\<rparr>"

text \<open>The message \<^verbatim>\<open>StartInstallation\<close> returns when every step has succeeded.\<close>

definition doneMsg :: InstallMsg where
  "doneMsg = \<lparr>StepID = [], Status = StatusReady, Progress = 100,
              Message = ''All installations complete!'', Error = None\<rparr>"





definition progressMsg :: "int \<Rightarrow> InstallMsg" where
  "progressMsg p = \<lparr>StepID = ''shell'', Status = StatusInProgress, Progress = p,
                     Message = ''Working'', Error = None\<rparr>"

section \<open>Facts about the library functions and the loops\<close>

lemma HasPrefix_iff: "HasPrefix s p \<longleftrightarrow> (\<exists>q. s = p @ q)"
  by (induction s p rule: HasPrefix.induct) auto

text \<open>\<^term>\<open>Contains\<close> is the substring test: the model agrees with the library's contract.\<close>

lemma Contains_iff: "Contains s sub \<longleftrightarrow> (\<exists>p q. s = p @ sub @ q)"
proof (induction s)
  case Nil
  show ?case by (cases sub) auto
next
  case (Cons c s)
  show ?case
  proof
    assume "Contains (c # s) sub"
    then consider "HasPrefix (c # s) sub" | "Contains s sub" by auto
    then show "\<exists>p q. c # s = p @ sub @ q"
    proof cases
      case 1
      then obtain q where "c # s = sub @ q" by (auto simp: HasPrefix_iff)
      then have "c # s = [] @ sub @ q" by simp
      then show ?thesis by blast
    next
      case 2
      then obtain p q where "s = p @ sub @ q" using Cons.IH by blast
      then have "c # s = (c # p) @ sub @ q" by simp
      then show ?thesis by blast
    qed
  next
    assume "\<exists>p q. c # s = p @ sub @ q"
    then obtain p q where pq: "c # s = p @ sub @ q" by blast
    show "Contains (c # s) sub"
    proof (cases p)
      case Nil
      with pq have "HasPrefix (c # s) sub" by (auto simp: HasPrefix_iff)
      then show ?thesis by simp
    next
      case (Cons d p')
      with pq have "s = p' @ sub @ q" by simp
      then have "Contains s sub" using Cons.IH by blast
      then show ?thesis by simp
    qed
  qed
qed

lemma length_updateMatchingStep [simp]:
  "length (updateMatchingStep msg ss) = length ss"
  by (induction ss) (auto split: option.splits)

lemma Enabled_updateMatchingStep:
  "map Enabled (updateMatchingStep msg ss) = map Enabled ss"
  by (induction ss) (auto split: option.splits)

lemma Enabled_updateMatchingStep_nth:
  "i < length ss \<Longrightarrow> Enabled (updateMatchingStep msg ss ! i) = Enabled (ss ! i)"
  using Enabled_updateMatchingStep [of msg ss]
  by (metis length_updateMatchingStep nth_map)

lemma sdiv_nonneg: "0 \<le> a \<Longrightarrow> 0 < b \<Longrightarrow> a sdiv b = a div (b::int)"
  by (simp add: signed_divide_int_def sgn_if)

subsection \<open>The fields after a progress message\<close>

lemma Enabled_markEnabledComplete:
  "i < length ss \<Longrightarrow> Enabled (ss ! i) \<Longrightarrow>
     SetupStep.Status (markEnabledComplete ss ! i) = StatusComplete"
  by (simp add: markEnabledComplete_def)

lemma length_markEnabledComplete [simp]:
  "length (markEnabledComplete ss) = length ss"
  by (simp add: markEnabledComplete_def)

lemma Update_InstallMsg_steps:
  "steps (fst (Update m (InstallMsgOf msg))) =
     (if Contains (InstallMsg.Message msg) ''complete!''
      then markEnabledComplete (stepsAfterMatch m msg) else stepsAfterMatch m msg)"
  by (simp add: Let_def stepsAfterMatch_def split: option.splits)

lemma Update_InstallMsg_installing:
  "installing (fst (Update m (InstallMsgOf msg))) =
     (if Contains (InstallMsg.Message msg) ''complete!'' \<or> InstallMsg.Error msg \<noteq> None
      then False else installing m)"
  by (simp add: Let_def split: option.splits)

lemma Update_InstallMsg_currentProgress:
  "currentProgress (fst (Update m (InstallMsgOf msg))) =
     (if Contains (InstallMsg.Message msg) ''complete!'' then 100
      else if 0 < InstallMsg.Progress msg then InstallMsg.Progress msg
      else currentProgress m)"
  by (simp add: Let_def split: option.splits)

lemma Update_InstallMsg_notification:
  "notification (fst (Update m (InstallMsgOf msg))) =
     (if Contains (InstallMsg.Message msg) ''complete!'' then Some completeNotification
      else case InstallMsg.Error msg of
             None \<Rightarrow> notification m
           | Some e \<Rightarrow> Some (errorNotification (StepID msg) e))"
  by (simp add: Let_def split: option.splits)

lemmas Update_InstallMsg_fields =
  Update_InstallMsg_steps Update_InstallMsg_installing
  Update_InstallMsg_currentProgress Update_InstallMsg_notification

lemma length_stepsAfterMatch [simp]: "length (stepsAfterMatch m msg) = length (steps m)"
  by (simp add: stepsAfterMatch_def)

lemma Enabled_stepsAfterMatch:
  "i < length (steps m) \<Longrightarrow> Enabled (stepsAfterMatch m msg ! i) = Enabled (steps m ! i)"
  by (simp add: stepsAfterMatch_def Enabled_updateMatchingStep_nth)

subsection \<open>The key handler, key by key\<close>

lemma hk_up: "handleKeypress m ''up'' = (moveUp m, None)"
  by (simp add: handleKeypress_def moveUp_def)

lemma hk_down: "handleKeypress m ''down'' = (moveDown m, None)"
  by (simp add: handleKeypress_def moveDown_def)

lemma hk_k: "handleKeypress m ''k'' = (if keyboardLayout m = QWERTY then moveUp m else m, None)"
  by (simp add: handleKeypress_def moveUp_def)

lemma hk_j: "handleKeypress m ''j'' = (if keyboardLayout m = QWERTY then moveDown m else m, None)"
  by (simp add: handleKeypress_def moveDown_def)

lemma hk_u: "handleKeypress m ''u'' = (if keyboardLayout m = QWERTY then m else moveUp m, None)"
  by (simp add: handleKeypress_def moveUp_def)

lemma hk_e: "handleKeypress m ''e'' = (if keyboardLayout m = QWERTY then m else moveDown m, None)"
  by (simp add: handleKeypress_def moveDown_def)

lemmas hk_nav = hk_up hk_down hk_k hk_j hk_u hk_e

lemma isNavKey_cases:
  "isNavKey key \<Longrightarrow> key = ''up'' \<or> key = ''down'' \<or> key = ''k'' \<or> key = ''j'' \<or> key = ''u'' \<or> key = ''e''"
  unfolding isNavKey_def isNavUp_def isNavDown_def by auto

lemma handleKeypress_nav:
  assumes "isNavKey key"
  shows "fst (handleKeypress m key) = m \<or> fst (handleKeypress m key) = moveUp m
         \<or> fst (handleKeypress m key) = moveDown m"
  using isNavKey_cases [OF assms] by (elim disjE) (simp_all add: hk_nav)

lemma nav_up_noop:
  assumes "selectedStep m = 0" "isNavUp (keyboardLayout m) k"
  shows "handleKeypress m k = (m, None)"
proof -
  have "moveUp m = m" using assms(1) by (simp add: moveUp_def)
  moreover have "k = ''up'' \<or> (k = ''k'' \<and> keyboardLayout m = QWERTY) \<or> (k = ''u'' \<and> keyboardLayout m = ColemakDH)"
    using assms(2) by (cases "keyboardLayout m") (auto simp: isNavUp_def)
  ultimately show ?thesis by (elim disjE conjE) (simp_all add: hk_nav)
qed

lemma nav_down_noop:
  assumes "selectedStep m = int (length (steps m)) - 1" "isNavDown (keyboardLayout m) k"
  shows "handleKeypress m k = (m, None)"
proof -
  have "moveDown m = m" using assms(1) by (simp add: moveDown_def)
  moreover have "k = ''down'' \<or> (k = ''j'' \<and> keyboardLayout m = QWERTY) \<or> (k = ''e'' \<and> keyboardLayout m = ColemakDH)"
    using assms(2) by (cases "keyboardLayout m") (auto simp: isNavDown_def)
  ultimately show ?thesis by (elim disjE conjE) (simp_all add: hk_nav)
qed

lemma nav_up_moves:
  assumes "0 < selectedStep m" "isNavUp (keyboardLayout m) k"
  shows "handleKeypress m k = (m\<lparr>selectedStep := selectedStep m - 1\<rparr>, None)"
proof -
  have "moveUp m = m\<lparr>selectedStep := selectedStep m - 1\<rparr>" using assms(1) by (simp add: moveUp_def)
  moreover have "k = ''up'' \<or> (k = ''k'' \<and> keyboardLayout m = QWERTY) \<or> (k = ''u'' \<and> keyboardLayout m = ColemakDH)"
    using assms(2) by (cases "keyboardLayout m") (auto simp: isNavUp_def)
  ultimately show ?thesis by (elim disjE conjE) (simp_all add: hk_nav)
qed

lemma handleKeypress_nav_inv:
  assumes "0 \<le> selectedStep m" "selectedStep m \<le> int (length (steps m)) - 1" "isNavKey key"
  shows "0 \<le> selectedStep (fst (handleKeypress m key))
   \<and> selectedStep (fst (handleKeypress m key)) \<le> int (length (steps (fst (handleKeypress m key)))) - 1
   \<and> length (steps (fst (handleKeypress m key))) = length (steps m)"
  using handleKeypress_nav [OF assms(3), of m] assms(1,2)
  by (elim disjE) (auto simp: moveUp_def moveDown_def split: if_splits)

lemma eventLoop_nav_inv:
  "0 \<le> selectedStep m \<Longrightarrow> selectedStep m \<le> int (length (steps m)) - 1 \<Longrightarrow>
   \<forall>k \<in> set ks. isNavKey k \<Longrightarrow>
   0 \<le> selectedStep (eventLoop m (map KeyMsg ks))
   \<and> selectedStep (eventLoop m (map KeyMsg ks)) \<le> int (length (steps (eventLoop m (map KeyMsg ks)))) - 1
   \<and> length (steps (eventLoop m (map KeyMsg ks))) = length (steps m)"
proof (induction ks arbitrary: m)
  case Nil
  then show ?case by simp
next
  case (Cons k ks)
  have k: "isNavKey k" using Cons.prems by simp
  note h = handleKeypress_nav_inv [OF Cons.prems(1) Cons.prems(2) k]
  have "0 \<le> selectedStep (fst (handleKeypress m k))" using h by blast
  moreover have "selectedStep (fst (handleKeypress m k))
      \<le> int (length (steps (fst (handleKeypress m k)))) - 1" using h by blast
  moreover have "\<forall>k \<in> set ks. isNavKey k" using Cons.prems by simp
  ultimately show ?case using Cons.IH [of "fst (handleKeypress m k)"] h by simp
qed



lemma hk_enter: "handleKeypress m ''enter'' =
   (if notification m \<noteq> None then (m\<lparr>notification := None\<rparr>, None) else toggleStep m)"
  by (simp add: handleKeypress_def)

lemma hk_esc: "handleKeypress m ''esc'' =
   (if notification m \<noteq> None then (m\<lparr>notification := None\<rparr>, None) else (m, Some Quit))"
  by (simp add: handleKeypress_def)

lemma hk_space: "handleKeypress m '' '' = toggleStep m"
  by (simp add: handleKeypress_def)

lemma hk_s: "handleKeypress m ''s'' =
   (if \<not> installing m \<and> notification m = None
    then (m\<lparr>installing := True\<rparr>, Some (StartInstallation (m\<lparr>installing := True\<rparr>)))
    else (m, None))"
  by (simp add: handleKeypress_def)

lemma hk_S: "handleKeypress m ''S'' =
   (if \<not> installing m \<and> notification m = None
    then (m\<lparr>installing := True\<rparr>, Some (StartInstallation (m\<lparr>installing := True\<rparr>)))
    else (m, None))"
  by (simp add: handleKeypress_def)

lemma notification_toggleStep [simp]: "notification (fst (toggleStep m)) = notification m"
  by (simp add: toggleStep_def)

lemma toggleStep_notification_update:
  "toggleStep (m\<lparr>notification := n\<rparr>) = ((fst (toggleStep m))\<lparr>notification := n\<rparr>, None)"
  by (simp add: toggleStep_def)

lemma snd_toggleStep [simp]: "snd (toggleStep m) = None"
  by (simp add: toggleStep_def)

text \<open>A key that does not dismiss is handled without looking at the notification,
  the start keys apart.\<close>

lemma handleKeypress_notification_kept:
  assumes "key \<noteq> ''enter''" "key \<noteq> ''esc''"
  shows "notification (fst (handleKeypress m key)) = notification m"
  using assms by (simp add: handleKeypress_def)

lemma handleKeypress_ignores_notification:
  assumes "key \<noteq> ''enter''" "key \<noteq> ''esc''" "key \<noteq> ''s''" "key \<noteq> ''S''"
  shows "handleKeypress (m\<lparr>notification := n\<rparr>) key =
           ((fst (handleKeypress m key))\<lparr>notification := n\<rparr>, snd (handleKeypress m key))"
  using assms by (simp add: handleKeypress_def toggleStep_notification_update)

lemma nav_down_moves:
  assumes "selectedStep m < int (length (steps m)) - 1" "isNavDown (keyboardLayout m) k"
  shows "handleKeypress m k = (m\<lparr>selectedStep := selectedStep m + 1\<rparr>, None)"
proof -
  have "moveDown m = m\<lparr>selectedStep := selectedStep m + 1\<rparr>"
    using assms(1) by (simp add: moveDown_def)
  moreover have "k = ''down'' \<or> (k = ''j'' \<and> keyboardLayout m = QWERTY)
      \<or> (k = ''e'' \<and> keyboardLayout m = ColemakDH)"
    using assms(2) by (cases "keyboardLayout m") (auto simp: isNavDown_def)
  ultimately show ?thesis by (elim disjE conjE) (simp_all add: hk_nav)
qed

subsection \<open>The step a message names\<close>


subsection \<open>Progress along a sequence of messages\<close>

lemma Update_progress_step:
  assumes "currentProgress m \<le> 100"
    and "InstallMsg.Progress msg \<le> 0
         \<or> (currentProgress m \<le> InstallMsg.Progress msg \<and> InstallMsg.Progress msg \<le> 100)"
  shows "currentProgress m \<le> currentProgress (fst (Update m (InstallMsgOf msg)))
         \<and> currentProgress (fst (Update m (InstallMsgOf msg))) \<le> 100"
  using assms by (auto simp only: Update_InstallMsg_currentProgress split: if_splits)

lemma progressTrace_sorted:
  "currentProgress m \<le> 100 \<Longrightarrow> risingProgress m msgs \<Longrightarrow>
     sorted (currentProgress m # progressTrace m msgs)"
proof (induction msgs arbitrary: m)
  case Nil
  then show ?case by simp
next
  case (Cons msg msgs)
  let ?m' = "fst (Update m (InstallMsgOf msg))"
  have ok: "InstallMsg.Progress msg \<le> 0
         \<or> (currentProgress m \<le> InstallMsg.Progress msg \<and> InstallMsg.Progress msg \<le> 100)"
    and rest: "risingProgress ?m' msgs"
    using Cons.prems(2) by simp_all
  have step: "currentProgress m \<le> currentProgress ?m'" "currentProgress ?m' \<le> 100"
    using Update_progress_step [OF Cons.prems(1) ok] by simp_all
  have tail: "sorted (currentProgress ?m' # progressTrace ?m' msgs)"
    using Cons.IH [OF step(2) rest] .
  have "progressTrace m (msg # msgs) = currentProgress ?m' # progressTrace ?m' msgs"
    by (simp del: Update.simps(3))
  moreover have "sorted (currentProgress m # currentProgress ?m' # progressTrace ?m' msgs)"
    using step(1) tail by (auto simp del: Update.simps(3))
  ultimately show ?case by (simp only:)
qed

subsection \<open>The registry built from a configuration\<close>

lemma length_getConfigurableSteps:
  "int (length (getConfigurableSteps (Some c))) = getTotalConfiguredSteps c"
  by (simp add: getConfigurableSteps_def getTotalConfiguredSteps_def)

section \<open>A message that carries an error\<close>




section \<open>Completion of a run\<close>

text \<open>
  Claim C2. For every state and every progress message whose text contains
  \<^verbatim>\<open>"complete!"\<close>, the state \<^verbatim>\<open>Update\<close> produces has every step that was enabled
  before the event in status \<^verbatim>\<open>StatusComplete\<close>, \<^verbatim>\<open>currentProgress = 100\<close>,
  \<^verbatim>\<open>installing = false\<close>, and an active notification of kind success.
\<close>

theorem Update_complete:
  "Contains (InstallMsg.Message msg) ''complete!'' \<Longrightarrow>
     length (steps (fst (Update m (InstallMsgOf msg)))) = length (steps m)
     \<and> (\<forall>i < length (steps m). Enabled (steps m ! i) \<longrightarrow>
           SetupStep.Status (steps (fst (Update m (InstallMsgOf msg))) ! i) = StatusComplete)
     \<and> currentProgress (fst (Update m (InstallMsgOf msg))) = 100
     \<and> \<not> installing (fst (Update m (InstallMsgOf msg)))
     \<and> notification (fst (Update m (InstallMsgOf msg))) = Some completeNotification
     \<and> Type completeNotification = ''success''"
  by (simp only: Update_InstallMsg_fields)
     (simp add: Enabled_markEnabledComplete Enabled_stepsAfterMatch completeNotification_def)

theorem Update_complete_witness:
  "Contains (InstallMsg.Message doneMsg) ''complete!''
   \<and> Enabled (steps demoModel ! 1) \<and> \<not> Enabled (steps demoModel ! 2)
   \<and> SetupStep.Status (steps (fst (Update demoModel (InstallMsgOf doneMsg))) ! 1) = StatusComplete
   \<and> SetupStep.Status (steps (fst (Update demoModel (InstallMsgOf doneMsg))) ! 2) = StatusReady
   \<and> currentProgress (fst (Update demoModel (InstallMsgOf doneMsg))) = 100
   \<and> \<not> installing (fst (Update demoModel (InstallMsgOf doneMsg)))"
  using Update_complete [of doneMsg demoModel]
  by (simp add: doneMsg_def demoModel_def demoStep_def verifyStep_def markEnabledComplete_def)

section \<open>Keys while a notification is shown\<close>

text \<open>
  The spec has every key but the dismiss keys swallowed while a notification is active.
  The code tests the notification only for \<^verbatim>\<open>enter\<close> and \<^verbatim>\<open>esc\<close> and for the start
  keys; a navigation key still moves the selection.
\<close>

theorem notification_swallow_counterexample:
  "notification alertModel \<noteq> None
   \<and> isNavKey ''e'' \<and> ''e'' \<noteq> ''enter'' \<and> ''e'' \<noteq> ''esc''
   \<and> selectedStep alertModel = 1
   \<and> selectedStep (fst (handleKeypress alertModel ''e'')) = 2
   \<and> fst (handleKeypress alertModel ''e'') \<noteq> alertModel"
  by (simp add: hk_nav moveDown_def demoModel_def alertModel_def isNavKey_def isNavDown_def)

text \<open>
  Claim C3, as the code has it. For every state with an active notification: \<^verbatim>\<open>enter\<close>
  and \<^verbatim>\<open>esc\<close> clear the notification and leave every other field unchanged. Every
  other key leaves the notification as it is; the start keys leave the whole state
  unchanged; a key that is neither is handled exactly as it would be with no
  notification, so a navigation-up key above index 0 moves the selection up and a
  navigation-down key below the last index moves it down.
\<close>

theorem notification_keys:
  assumes "notification m \<noteq> None"
  shows "(key = ''enter'' \<or> key = ''esc'' \<longrightarrow>
            handleKeypress m key = (m\<lparr>notification := None\<rparr>, None))
     \<and> (key \<noteq> ''enter'' \<and> key \<noteq> ''esc'' \<longrightarrow>
          notification (fst (handleKeypress m key)) = notification m
          \<and> (key = ''s'' \<or> key = ''S'' \<longrightarrow> handleKeypress m key = (m, None))
          \<and> (key \<noteq> ''s'' \<and> key \<noteq> ''S'' \<longrightarrow>
               handleKeypress m key =
                 ((fst (handleKeypress (m\<lparr>notification := None\<rparr>) key))
                     \<lparr>notification := notification m\<rparr>,
                  snd (handleKeypress (m\<lparr>notification := None\<rparr>) key)))
          \<and> (0 < selectedStep m \<and> isNavUp (keyboardLayout m) key \<longrightarrow>
                fst (handleKeypress m key) = m\<lparr>selectedStep := selectedStep m - 1\<rparr>)
          \<and> (selectedStep m < int (length (steps m)) - 1 \<and> isNavDown (keyboardLayout m) key \<longrightarrow>
                fst (handleKeypress m key) = m\<lparr>selectedStep := selectedStep m + 1\<rparr>))"
proof (intro conjI impI)
  assume "key = ''enter'' \<or> key = ''esc''"
  then show "handleKeypress m key = (m\<lparr>notification := None\<rparr>, None)"
    using assms by (auto simp: hk_enter hk_esc)
next
  assume "key \<noteq> ''enter'' \<and> key \<noteq> ''esc''"
  then show "notification (fst (handleKeypress m key)) = notification m"
    by (simp add: handleKeypress_notification_kept)
next
  assume "key = ''s'' \<or> key = ''S''"
  then show "handleKeypress m key = (m, None)"
    using assms by (auto simp: hk_s hk_S)
next
  assume d: "key \<noteq> ''enter'' \<and> key \<noteq> ''esc''" and s: "key \<noteq> ''s'' \<and> key \<noteq> ''S''"
  have "handleKeypress ((m\<lparr>notification := None\<rparr>)\<lparr>notification := notification m\<rparr>) key =
          ((fst (handleKeypress (m\<lparr>notification := None\<rparr>) key))\<lparr>notification := notification m\<rparr>,
           snd (handleKeypress (m\<lparr>notification := None\<rparr>) key))"
    using d s by (intro handleKeypress_ignores_notification) simp_all
  then show "handleKeypress m key =
          ((fst (handleKeypress (m\<lparr>notification := None\<rparr>) key))\<lparr>notification := notification m\<rparr>,
           snd (handleKeypress (m\<lparr>notification := None\<rparr>) key))"
    by simp
next
  assume "0 < selectedStep m \<and> isNavUp (keyboardLayout m) key"
  then show "fst (handleKeypress m key) = m\<lparr>selectedStep := selectedStep m - 1\<rparr>"
    by (simp add: nav_up_moves)
next
  assume "selectedStep m < int (length (steps m)) - 1 \<and> isNavDown (keyboardLayout m) key"
  then show "fst (handleKeypress m key) = m\<lparr>selectedStep := selectedStep m + 1\<rparr>"
    by (simp add: nav_down_moves)
qed

theorem notification_keys_witness:
  "notification alertModel \<noteq> None
   \<and> handleKeypress alertModel ''enter'' = (demoModel, None)
   \<and> ''u'' \<noteq> ''enter'' \<and> ''u'' \<noteq> ''esc'' \<and> ''u'' \<noteq> ''s'' \<and> ''u'' \<noteq> ''S''
   \<and> 0 < selectedStep alertModel
   \<and> isNavUp (keyboardLayout alertModel) ''u''
   \<and> fst (handleKeypress alertModel ''u'') = alertModel\<lparr>selectedStep := 0\<rparr>
   \<and> isNavDown (keyboardLayout alertModel) ''e''
   \<and> fst (handleKeypress alertModel ''e'') = alertModel\<lparr>selectedStep := 2\<rparr>
   \<and> handleKeypress alertModel ''s'' = (alertModel, None)"
  using notification_keys [of alertModel "''enter''"]
    notification_keys [of alertModel "''u''"]
    notification_keys [of alertModel "''e''"]
    notification_keys [of alertModel "''s''"]
  by (simp add: demoModel_def alertModel_def isNavUp_def isNavDown_def hk_nav hk_enter hk_s moveUp_def
        moveDown_def)

section \<open>Starting the installation\<close>

text \<open>
  The spec promises that the start key resets \<^verbatim>\<open>currentProgress\<close> to 0. The code
  only sets \<^verbatim>\<open>installing\<close>: after a completed run whose notification has been
  dismissed with enter, the progress is 100, and it is still 100 when the installation
  is started again.
\<close>

theorem start_key_counterexample:
  "\<not> installing (eventLoop demoModel [InstallMsgOf doneMsg, KeyMsg ''enter''])
   \<and> notification (eventLoop demoModel [InstallMsgOf doneMsg, KeyMsg ''enter'']) = None
   \<and> installing (fst (handleKeypress
         (eventLoop demoModel [InstallMsgOf doneMsg, KeyMsg ''enter'']) ''s''))
   \<and> currentProgress (fst (handleKeypress
         (eventLoop demoModel [InstallMsgOf doneMsg, KeyMsg ''enter'']) ''s'')) = 100"
  by (simp add: hk_enter hk_s Update_InstallMsg_fields doneMsg_def demoModel_def
       del: Update.simps(3))

text \<open>
  Claim C4, as the code has it. The start key \<^verbatim>\<open>s\<close> or \<^verbatim>\<open>S\<close> changes the state only
  when \<^verbatim>\<open>installing\<close> is false and no notification is active; the new state is then
  the old one with \<^verbatim>\<open>installing\<close> set to true and every other field,
  \<^verbatim>\<open>currentProgress\<close> among them, as it was, and the installation command is issued.
  When \<^verbatim>\<open>installing\<close> is true or a notification is active, the start key leaves the state
  unchanged and issues no command.
\<close>

theorem start_key:
  assumes "key = ''s'' \<or> key = ''S''"
  shows "(\<not> installing m \<and> notification m = None \<longrightarrow>
            fst (handleKeypress m key) = m\<lparr>installing := True\<rparr>
            \<and> installing (fst (handleKeypress m key))
            \<and> currentProgress (fst (handleKeypress m key)) = currentProgress m
            \<and> snd (handleKeypress m key) = Some (StartInstallation (m\<lparr>installing := True\<rparr>)))
       \<and> (installing m \<or> notification m \<noteq> None \<longrightarrow> handleKeypress m key = (m, None))"
  using assms by (auto simp: hk_s hk_S)

theorem start_key_witness:
  "\<not> installing demoModel \<and> notification demoModel = None
   \<and> installing (fst (handleKeypress demoModel ''s''))
   \<and> currentProgress (fst (handleKeypress demoModel ''s'')) = 0
   \<and> installing (demoModel\<lparr>installing := True\<rparr>)
   \<and> handleKeypress (demoModel\<lparr>installing := True\<rparr>) ''S''
        = (demoModel\<lparr>installing := True\<rparr>, None)
   \<and> notification alertModel \<noteq> None
   \<and> handleKeypress alertModel ''s'' = (alertModel, None)"
  using start_key [of "''s''" demoModel]
    start_key [of "''S''" "demoModel\<lparr>installing := True\<rparr>"]
    start_key [of "''s''" alertModel]
  by (simp add: demoModel_def alertModel_def)

section \<open>Navigation\<close>

text \<open>
  Claim C5. From a state with a non-empty step list and \<^verbatim>\<open>selectedStep\<close> in
  \<open>[0, len(steps) - 1]\<close>, after any sequence of navigation keys (those of either
  layout, whatever the layout of the state) \<^verbatim>\<open>selectedStep\<close> is still in that range;
  navigation-up at index 0 and navigation-down at the last index change nothing.
\<close>

theorem navigation_clamped:
  assumes "steps m \<noteq> []" "0 \<le> selectedStep m" "selectedStep m \<le> int (length (steps m)) - 1"
    and "\<forall>k \<in> set ks. isNavKey k"
  shows "0 \<le> selectedStep (eventLoop m (map KeyMsg ks))
     \<and> selectedStep (eventLoop m (map KeyMsg ks))
          \<le> int (length (steps (eventLoop m (map KeyMsg ks)))) - 1
     \<and> (selectedStep m = 0 \<and> isNavUp (keyboardLayout m) key
          \<longrightarrow> Update m (KeyMsg key) = (m, None))
     \<and> (selectedStep m = int (length (steps m)) - 1 \<and> isNavDown (keyboardLayout m) key
          \<longrightarrow> Update m (KeyMsg key) = (m, None))"
  using eventLoop_nav_inv [OF assms(2) assms(3) assms(4)]
  by (simp add: nav_up_noop nav_down_noop)

theorem navigation_clamped_witness:
  "steps demoModel \<noteq> [] \<and> 0 \<le> selectedStep demoModel
   \<and> selectedStep demoModel \<le> int (length (steps demoModel)) - 1
   \<and> isNavKey ''e'' \<and> isNavDown (keyboardLayout demoModel) ''e''
   \<and> selectedStep demoModel = 1
   \<and> selectedStep (eventLoop demoModel (map KeyMsg [''e'', ''e''])) = 2
   \<and> selectedStep (demoModel\<lparr>selectedStep := 2\<rparr>) = int (length (steps demoModel)) - 1
   \<and> Update (demoModel\<lparr>selectedStep := 2\<rparr>) (KeyMsg ''e'')
        = (demoModel\<lparr>selectedStep := 2\<rparr>, None)
   \<and> isNavUp (keyboardLayout demoModel) ''u''
   \<and> Update (demoModel\<lparr>selectedStep := 0\<rparr>) (KeyMsg ''u'')
        = (demoModel\<lparr>selectedStep := 0\<rparr>, None)"
  using navigation_clamped [of demoModel "[''e'', ''e'']" "''e''"]
    navigation_clamped [of "demoModel\<lparr>selectedStep := 2\<rparr>" "[]" "''e''"]
    navigation_clamped [of "demoModel\<lparr>selectedStep := 0\<rparr>" "[]" "''u''"]
  by (simp add: demoModel_def isNavKey_def isNavUp_def isNavDown_def hk_nav moveDown_def moveUp_def)

section \<open>Toggling a step\<close>

text \<open>
  Claim C6. When \<^verbatim>\<open>selectedStep\<close> is a valid index, \<^verbatim>\<open>toggleStep\<close> flips the
  \<^verbatim>\<open>Enabled\<close> flag of the selected step and changes no other step, and a second toggle
  gives back the state before the first, so the flag has its original value again.
  When the step list is empty, \<^verbatim>\<open>toggleStep\<close> changes nothing.
\<close>

theorem toggleStep_twice:
  "(0 \<le> selectedStep m \<and> selectedStep m < int (length (steps m)) \<longrightarrow>
      Enabled (steps (fst (toggleStep m)) ! nat (selectedStep m))
        = (\<not> Enabled (steps m ! nat (selectedStep m)))
      \<and> length (steps (fst (toggleStep m))) = length (steps m)
      \<and> (\<forall>j < length (steps m). j \<noteq> nat (selectedStep m) \<longrightarrow>
            steps (fst (toggleStep m)) ! j = steps m ! j)
      \<and> fst (toggleStep (fst (toggleStep m))) = m)
   \<and> (steps m = [] \<longrightarrow> toggleStep m = (m, None))"
  by (auto simp: toggleStep_def list_update_same_conv)

theorem toggleStep_twice_witness:
  "(0 \<le> selectedStep demoModel \<and> selectedStep demoModel < int (length (steps demoModel))
    \<and> Enabled (steps demoModel ! 1)
    \<and> \<not> Enabled (steps (fst (toggleStep demoModel)) ! 1)
    \<and> steps (fst (toggleStep demoModel)) ! 0 = steps demoModel ! 0
    \<and> fst (toggleStep (fst (toggleStep demoModel))) = demoModel)
   \<and> (steps (demoModel\<lparr>steps := []\<rparr>) = []
      \<and> toggleStep (demoModel\<lparr>steps := []\<rparr>) = (demoModel\<lparr>steps := []\<rparr>, None))"
  using toggleStep_twice [of demoModel] toggleStep_twice [of "demoModel\<lparr>steps := []\<rparr>"]
  by (simp add: demoModel_def demoStep_def)

section \<open>The pane widths\<close>

text \<open>
  Claim C7. For a terminal at least 50 wide and 10 high, the layout computation of
  \<^verbatim>\<open>View\<close> (which draws the two panes unless the help screen is up) yields widths
  that satisfy \<open>navWidth + detailWidth + 6 \<le> width\<close>; when the
  narrow-terminal fallback does not apply (the detail width left by the ladder is not
  below 20), \<open>navWidth \<ge> 25\<close> and \<open>detailWidth \<ge> 20\<close>; and width 100 gives
  \<open>navWidth = 25\<close> and \<open>detailWidth = 69\<close>.
\<close>

theorem View_pane_widths:
  "50 \<le> width m \<Longrightarrow> 10 \<le> height m \<Longrightarrow>
     (\<not> showHelp m \<longrightarrow>
        View m = Panes (fst (paneWidths (width m))) (snd (paneWidths (width m))))
     \<and> fst (paneWidths (width m)) + snd (paneWidths (width m)) + 6 \<le> width m
     \<and> (\<not> width m - tierNavWidth (width m) - 6 < 20 \<longrightarrow>
          25 \<le> fst (paneWidths (width m)) \<and> 20 \<le> snd (paneWidths (width m)))
     \<and> (width m = 100 \<longrightarrow> paneWidths (width m) = (25, 69))"
  by (auto simp: View_def paneWidths_def tierNavWidth_def Let_def sdiv_nonneg)

theorem View_pane_widths_witness:
  "50 \<le> width demoModel \<and> 10 \<le> height demoModel \<and> \<not> showHelp demoModel
   \<and> \<not> width demoModel - tierNavWidth (width demoModel) - 6 < 20
   \<and> width demoModel = 100
   \<and> View demoModel = Panes 25 69 \<and> (25::int) + 69 + 6 \<le> 100"
  using View_pane_widths [of demoModel]
  by (simp add: demoModel_def tierNavWidth_def sdiv_nonneg)

section \<open>Progress during a run\<close>

text \<open>
  The spec has the progress never decrease while a run is on. The code stores whatever
  positive percentage a message carries: with the progress at 80, a message that
  reports 30 brings it down to 30.
\<close>

theorem progress_decrease_counterexample:
  "installing (demoModel\<lparr>installing := True, currentProgress := 80\<rparr>)
   \<and> InstallMsg.Error (progressMsg 30) = None
   \<and> \<not> Contains (InstallMsg.Message (progressMsg 30)) ''complete!''
   \<and> currentProgress (demoModel\<lparr>installing := True, currentProgress := 80\<rparr>) = 80
   \<and> installing (fst (Update (demoModel\<lparr>installing := True, currentProgress := 80\<rparr>)
         (InstallMsgOf (progressMsg 30))))
   \<and> currentProgress (fst (Update (demoModel\<lparr>installing := True, currentProgress := 80\<rparr>)
         (InstallMsgOf (progressMsg 30)))) = 30"
  by (simp add: Update_InstallMsg_fields progressMsg_def demoModel_def del: Update.simps(3))

text \<open>
  Claim C8, as the code has it. A progress value in a message is applied only if it is
  greater than 0: after \<^verbatim>\<open>Update\<close> the progress is 100 when the text contains
  \<^verbatim>\<open>"complete!"\<close>, else the message's value when that is positive, else what it was.
  Hence, from every state whose progress is at most 100 and for every sequence of
  progress messages each of which carries either no positive value or a value between
  the progress current at its arrival and 100, \<^verbatim>\<open>currentProgress\<close> never decreases
  across the \<^verbatim>\<open>Update\<close> transitions.
\<close>

theorem progress_nondecreasing:
  "currentProgress (fst (Update m (InstallMsgOf msg))) =
     (if Contains (InstallMsg.Message msg) ''complete!'' then 100
      else if 0 < InstallMsg.Progress msg then InstallMsg.Progress msg
      else currentProgress m)
   \<and> (currentProgress m \<le> 100 \<and> risingProgress m msgs \<longrightarrow>
        sorted (currentProgress m # progressTrace m msgs))"
  using progressTrace_sorted [of m msgs]
  by (simp only: Update_InstallMsg_currentProgress) simp

theorem progress_nondecreasing_witness:
  "currentProgress (demoModel\<lparr>installing := True\<rparr>) \<le> 100
   \<and> risingProgress (demoModel\<lparr>installing := True\<rparr>)
        [progressMsg 20, progressMsg 0, progressMsg 60, doneMsg]
   \<and> progressTrace (demoModel\<lparr>installing := True\<rparr>)
        [progressMsg 20, progressMsg 0, progressMsg 60, doneMsg] = [20, 20, 60, 100]
   \<and> sorted (0 # [20, 20, 60, 100 :: int])"
  using progress_nondecreasing [of "demoModel\<lparr>installing := True\<rparr>" "progressMsg 20"
      "[progressMsg 20, progressMsg 0, progressMsg 60, doneMsg]"]
  by (simp add: Update_InstallMsg_fields progressMsg_def doneMsg_def demoModel_def
        del: Update.simps(3))

section \<open>Enter and space\<close>

text \<open>
  The spec lets space dismiss a notification as enter does. In the code space is not a
  dismiss key: with a notification active it toggles the selected step and the
  notification stays.
\<close>

theorem space_dismiss_counterexample:
  "notification alertModel \<noteq> None
   \<and> notification (fst (handleKeypress alertModel '' '')) = Some demoNotification
   \<and> Enabled (steps alertModel ! 1)
   \<and> \<not> Enabled (steps (fst (handleKeypress alertModel '' '')) ! 1)"
  by (simp add: hk_space toggleStep_def demoModel_def alertModel_def demoStep_def verifyStep_def)

text \<open>
  Claim C9, as the code has it. For every state with an active notification, \<^verbatim>\<open>enter\<close>
  dismisses the notification, while space leaves it in place and acts as the toggle.
  For every state with no active notification and a valid selected index, \<^verbatim>\<open>enter\<close> and
  space both toggle the \<^verbatim>\<open>Enabled\<close> flag of the selected step and change no other step.
\<close>

theorem enter_space_keys:
  "(notification m \<noteq> None \<longrightarrow>
      handleKeypress m ''enter'' = (m\<lparr>notification := None\<rparr>, None)
      \<and> notification (fst (handleKeypress m ''enter'')) = None
      \<and> handleKeypress m '' '' = toggleStep m
      \<and> notification (fst (handleKeypress m '' '')) = notification m)
   \<and> (notification m = None \<and> 0 \<le> selectedStep m \<and> selectedStep m < int (length (steps m))
        \<and> (key = ''enter'' \<or> key = '' '') \<longrightarrow>
        handleKeypress m key = toggleStep m
        \<and> Enabled (steps (fst (handleKeypress m key)) ! nat (selectedStep m))
             = (\<not> Enabled (steps m ! nat (selectedStep m)))
        \<and> (\<forall>j < length (steps m). j \<noteq> nat (selectedStep m) \<longrightarrow>
              steps (fst (handleKeypress m key)) ! j = steps m ! j))"
  by (auto simp: hk_enter hk_space toggleStep_def)

theorem enter_space_keys_witness:
  "notification alertModel \<noteq> None
   \<and> notification (fst (handleKeypress alertModel ''enter'')) = None
   \<and> notification demoModel = None \<and> 0 \<le> selectedStep demoModel
   \<and> selectedStep demoModel < int (length (steps demoModel))
   \<and> Enabled (steps demoModel ! 1)
   \<and> \<not> Enabled (steps (fst (handleKeypress demoModel ''enter'')) ! 1)
   \<and> \<not> Enabled (steps (fst (handleKeypress demoModel '' '')) ! 1)
   \<and> steps (fst (handleKeypress demoModel '' '')) ! 0 = steps demoModel ! 0"
  using enter_space_keys [of alertModel "''enter''"]
    enter_space_keys [of demoModel "''enter''"]
    enter_space_keys [of demoModel "'' ''"]
  by (simp add: demoModel_def alertModel_def demoStep_def hk_enter hk_space toggleStep_def)

section \<open>The initial state\<close>



end
